theory Spec2Isabelle
  imports Complex_Main
begin

section \<open>The training script \<^verbatim>\<open>buildings-example/train.py\<close>\<close>

text \<open>
  The script is a sequence of module-level statements.  Its variables become the fields
  of a record that is passed through the epoch loop; the libraries it calls (torch, tsai,
  scikit-learn, the openmapflow helpers) are not part of the file and are the fields of a
  second record, so that every statement about the loop holds for whatever they compute.

  Python floats are written as \<^typ>\<open>real\<close>.  The loop compares them (\<^verbatim>\<open><\<close>, \<^verbatim>\<open>==\<close>,
  \<^verbatim>\<open>> 0.5\<close>), and on finite floats these comparisons are those of the reals they denote;
  \<^verbatim>\<open>BCELoss\<close> rejects scores outside \<open>[0,1]\<close> (a NaN among them), so a loss that reaches the
  comparison is finite.  The additions, products and quotients of the script are written
  with the operations of \<^typ>\<open>real\<close>, without rounding: no result below depends on their
  value.  A metric is the one float that can be NaN when the script stores it, and it has
  a type of its own.
\<close>

subsection \<open>Errors, configuration, collaborators\<close>

datatype error = ZeroDivisionError | ValueError | IndexError

text \<open>An exception ends the script: the first error of a sequence is its result.\<close>

definition bind_err :: "error + 'a \<Rightarrow> ('a \<Rightarrow> error + 'b) \<Rightarrow> error + 'b" where
  "bind_err r f = (case r of Inl e \<Rightarrow> Inl e | Inr a \<Rightarrow> f a)"

text \<open>
  A metric is a float that is compared with nothing, and scikit-learn returns NaN for a
  score that is not defined, so a metric is a real number or NaN.
\<close>

datatype pyfloat = Float real | NaN

text \<open>The command-line arguments the loop reads (lines 41-58).\<close>

record config =
  batch_size :: int
  num_epochs :: int
  wandb_enabled :: bool
  model_name :: string

text \<open>
  What the script takes from outside: the two datasets (lists of pairs of an input block
  and a label), the order in which the shuffling loader yields the training set in each
  epoch, the model's forward pass (the flag says whether \<^verbatim>\<open>model.train()\<close> is in force),
  the loss, one optimiser update, the five scorers of scikit-learn, which can raise,
  the two naming helpers of openmapflow, and the URL of the tracker's run.
\<close>

record ('m, 'x) collaborators =
  train_data :: "('x \<times> real) list"
  val_data :: "('x \<times> real) list"
  shuffle :: "nat \<Rightarrow> ('x \<times> real) list \<Rightarrow> ('x \<times> real) list"
  forward :: "bool \<Rightarrow> 'm \<Rightarrow> 'x list \<Rightarrow> real list"
  criterion :: "real list \<Rightarrow> real list \<Rightarrow> real"
  optimizer_step :: "'m \<Rightarrow> 'x list \<Rightarrow> real list \<Rightarrow> 'm"
  accuracy_score :: "real list \<Rightarrow> int list \<Rightarrow> error + pyfloat"
  f1_score :: "real list \<Rightarrow> int list \<Rightarrow> error + pyfloat"
  precision_score :: "real list \<Rightarrow> int list \<Rightarrow> error + pyfloat"
  recall_score :: "real list \<Rightarrow> int list \<Rightarrow> error + pyfloat"
  roc_auc_score :: "real list \<Rightarrow> real list \<Rightarrow> error + pyfloat"
  generate_model_name :: string
  model_path_from_name :: "string \<Rightarrow> string"
  run_url :: string

subsection \<open>The variables of the script\<close>

datatype out = Line string | YamlDump "(string \<times> pyfloat) list"

text \<open>
  \<open>disk\<close> maps a path to the model stored there; \<open>writes\<close> is the list of the epochs in
  which \<^verbatim>\<open>sm.save\<close> ran, kept to count the checkpoint writes; \<open>wandb_log\<close> holds what
  \<^verbatim>\<open>wandb.log\<close> received and \<open>stdout\<close> what was printed.
\<close>

record 'm state =
  model :: 'm
  lowest_validation_loss :: "real option"
  metrics :: "(string \<times> pyfloat) list"
  total_train_loss :: real
  total_val_loss :: real
  y_true :: "real list"
  y_score :: "real list"
  y_pred :: "int list"
  train_loss :: real
  val_loss :: real
  disk :: "string \<rightharpoonup> 'm"
  writes :: "nat list"
  wandb_log :: "(string \<times> pyfloat) list list"
  stdout :: "out list"

text \<open>Lines 121-122: no best loss yet, no metrics; the other variables are not bound yet.\<close>

definition initial :: "'m \<Rightarrow> (string \<rightharpoonup> 'm) \<Rightarrow> 'm state" where
  "initial m0 d0 =
     \<lparr>model = m0, lowest_validation_loss = None, metrics = [],
      total_train_loss = 0, total_val_loss = 0, y_true = [], y_score = [], y_pred = [],
      train_loss = 0, val_loss = 0, disk = d0, writes = [], wandb_log = [], stdout = []\<rparr>"

subsection \<open>Batches\<close>

text \<open>
  Modelled from the spec: \<^verbatim>\<open>torch.utils.data.DataLoader\<close> (lines 74-75) is a library class.
  Section 4.1 has it yield the data in batches of \<^verbatim>\<open>batch_size\<close>, the last one possibly
  smaller, the validation batches in the order of the dataset and the training batches in
  a fresh order in each epoch.
\<close>

fun chunks :: "nat \<Rightarrow> 'a list \<Rightarrow> 'a list list" where
  "chunks b xs = (if b = 0 \<or> xs = [] then [] else take b xs # chunks b (drop b xs))"

declare chunks.simps [simp del]

definition train_dataloader :: "('m, 'x) collaborators \<Rightarrow> config \<Rightarrow> nat \<Rightarrow> ('x \<times> real) list list" where
  "train_dataloader E C k = chunks (nat (batch_size C)) (shuffle E k (train_data E))"

definition val_dataloader :: "('m, 'x) collaborators \<Rightarrow> config \<Rightarrow> ('x \<times> real) list list" where
  "val_dataloader E C = chunks (nat (batch_size C)) (val_data E)"

text \<open>
  Lines 123-124, the totals handed to the progress bars; \<^verbatim>\<open>//\<close> is floor division, which
  is \<open>div\<close> on \<^typ>\<open>int\<close>.
\<close>

definition train_batches :: "('m, 'x) collaborators \<Rightarrow> config \<Rightarrow> int" where
  "train_batches E C = 1 + int (length (train_data E)) div batch_size C"

definition val_batches :: "('m, 'x) collaborators \<Rightarrow> config \<Rightarrow> int" where
  "val_batches E C = 1 + int (length (val_data E)) div batch_size C"

subsection \<open>One epoch\<close>

text \<open>Lines 139-150: one training batch.\<close>

definition train_step :: "('m, 'x) collaborators \<Rightarrow> ('x \<times> real) list \<Rightarrow> 'm state \<Rightarrow> 'm state" where
  "train_step E x s =
     (let inputs = map fst x; labels = map snd x;
          outputs = forward E True (model s) inputs;
          loss = criterion E outputs labels
      in s\<lparr>model := optimizer_step E (model s) inputs labels,
            total_train_loss := total_train_loss s + loss * real (length inputs)\<rparr>)"

text \<open>Lines 130-150: the training pass.\<close>

definition training :: "('m, 'x) collaborators \<Rightarrow> config \<Rightarrow> nat \<Rightarrow> 'm state \<Rightarrow> 'm state" where
  "training E C k s = fold (train_step E) (train_dataloader E C k) (s\<lparr>total_train_loss := 0\<rparr>)"

text \<open>Line 175: \<^verbatim>\<open>(outputs > 0.5).long()\<close>, for one score.\<close>

definition threshold :: "real \<Rightarrow> int" where
  "threshold p = (if p > 0.5 then 1 else 0)"

text \<open>Lines 166-175: one validation batch.\<close>

definition val_step :: "('m, 'x) collaborators \<Rightarrow> ('x \<times> real) list \<Rightarrow> 'm state \<Rightarrow> 'm state" where
  "val_step E x s =
     (let inputs = map fst x; labels = map snd x;
          outputs = forward E False (model s) inputs;
          loss = criterion E outputs labels
      in s\<lparr>total_val_loss := total_val_loss s + loss * real (length inputs),
            y_true := y_true s @ labels,
            y_score := y_score s @ outputs,
            y_pred := y_pred s @ map threshold outputs\<rparr>)"

text \<open>Lines 153-175: the validation pass.\<close>

definition validation :: "('m, 'x) collaborators \<Rightarrow> config \<Rightarrow> 'm state \<Rightarrow> 'm state" where
  "validation E C s =
     fold (val_step E) (val_dataloader E C)
       (s\<lparr>total_val_loss := 0, y_true := [], y_score := [], y_pred := []\<rparr>)"

text \<open>Lines 178-179; dividing by the length of an empty dataset raises.\<close>

definition epoch_losses :: "('m, 'x) collaborators \<Rightarrow> 'm state \<Rightarrow> error + 'm state" where
  "epoch_losses E s =
     (if length (train_data E) = 0 then Inl ZeroDivisionError
      else if length (val_data E) = 0 then Inl ZeroDivisionError
      else Inr (s\<lparr>train_loss := total_train_loss s / real (length (train_data E)),
                   val_loss := total_val_loss s / real (length (val_data E))\<rparr>))"

text \<open>The five scores in the order of the dictionary display; the first error wins.\<close>

definition scores :: "('m, 'x) collaborators \<Rightarrow> 'm state \<Rightarrow> error + (string \<times> pyfloat) list" where
  "scores E s =
     bind_err (accuracy_score E (y_true s) (y_pred s)) (\<lambda>a.
     bind_err (f1_score E (y_true s) (y_pred s)) (\<lambda>f.
     bind_err (precision_score E (y_true s) (y_pred s)) (\<lambda>p.
     bind_err (recall_score E (y_true s) (y_pred s)) (\<lambda>r.
     bind_err (roc_auc_score E (y_true s) (y_score s)) (\<lambda>u.
       Inr [(''accuracy'', a), (''f1'', f), (''precision'', p), (''recall'', r),
            (''roc_auc'', u)])))))"

text \<open>
  Modelled from the spec: \<^verbatim>\<open>round(float(v), 4)\<close> on line 190 is Python's built-in; Section
  4.4 has it round each metric to 4 decimal places.  It is written on the reals, a tie
  going to the even neighbour as Python does, and NaN is returned as it is.
\<close>

definition round_half_even :: "real \<Rightarrow> int" where
  "round_half_even y =
     (let f = \<lfloor>y\<rfloor> in
      if y - of_int f < 1 / 2 then f
      else if 1 / 2 < y - of_int f then f + 1
      else if even f then f else f + 1)"

definition round4 :: "pyfloat \<Rightarrow> pyfloat" where
  "round4 v = (case v of NaN \<Rightarrow> NaN | Float x \<Rightarrow> Float (of_int (round_half_even (x * 10000)) / 10000))"

text \<open>Line 181: the test that selects a new best epoch.\<close>

definition new_best :: "real option \<Rightarrow> real \<Rightarrow> bool" where
  "new_best lowest v = (case lowest of None \<Rightarrow> True | Some b \<Rightarrow> v < b)"

text \<open>Lines 181-190.\<close>

definition selection :: "('m, 'x) collaborators \<Rightarrow> 'm state \<Rightarrow> error + 'm state" where
  "selection E s =
     (if new_best (lowest_validation_loss s) (val_loss s) then
        bind_err (scores E s) (\<lambda>ms.
          Inr (s\<lparr>lowest_validation_loss := Some (val_loss s),
                 metrics := map (\<lambda>(k, v). (k, round4 v)) ms\<rparr>))
      else Inr s)"

text \<open>Lines 194-210: what the tracker is sent; the plot is left out.\<close>

definition wandb_logging :: "('m, 'x) collaborators \<Rightarrow> config \<Rightarrow> nat \<Rightarrow> 'm state \<Rightarrow> error + 'm state" where
  "wandb_logging E C k s =
     (if wandb_enabled C then
        bind_err (scores E s) (\<lambda>ms.
          Inr (s\<lparr>wandb_log := wandb_log s @
                 [[(''train_loss'', Float (train_loss s)), (''val_loss'', Float (val_loss s)),
                   (''val_loss_min'', Float (the (lowest_validation_loss s))),
                   (''epoch'', Float (real k))] @ ms]\<rparr>))
      else Inr s)"

text \<open>Line 103: an empty name is replaced by a generated one.\<close>

definition final_model_name :: "('m, 'x) collaborators \<Rightarrow> config \<Rightarrow> string" where
  "final_model_name E C = (if model_name C = [] then generate_model_name E else model_name C)"

text \<open>Line 213: the test of the saving block.\<close>

definition save_due :: "real option \<Rightarrow> real \<Rightarrow> bool" where
  "save_due lowest v = (lowest = Some v)"

text \<open>Lines 213-218: remove the file at the model's path if there is one, then write it.\<close>

definition model_saving :: "('m, 'x) collaborators \<Rightarrow> config \<Rightarrow> nat \<Rightarrow> 'm state \<Rightarrow> 'm state" where
  "model_saving E C k s =
     (if save_due (lowest_validation_loss s) (val_loss s) then
        (let model_path = model_path_from_name E (final_model_name E C);
             d = (if model_path \<in> dom (disk s) then (disk s)(model_path := None) else disk s)
         in s\<lparr>disk := d(model_path \<mapsto> model s), writes := writes s @ [k]\<rparr>)
      else s)"

text \<open>Lines 127-218: the body of the epoch loop.\<close>

definition epoch :: "('m, 'x) collaborators \<Rightarrow> config \<Rightarrow> nat \<Rightarrow> 'm state \<Rightarrow> error + 'm state" where
  "epoch E C k s =
     bind_err (epoch_losses E (validation E C (training E C k s))) (\<lambda>s1.
     bind_err (selection E s1) (\<lambda>s2.
     bind_err (wandb_logging E C k s2) (\<lambda>s3.
       Inr (model_saving E C k s3))))"

subsection \<open>The loop and the script\<close>

text \<open>The loop over a list of epoch indices: an error ends the run.\<close>

fun epochs :: "('m, 'x) collaborators \<Rightarrow> config \<Rightarrow> nat list \<Rightarrow> 'm state \<Rightarrow> error + 'm state" where
  "epochs E C [] s = Inr s"
| "epochs E C (k # ks) s = bind_err (epoch E C k s) (epochs E C ks)"

text \<open>\<^verbatim>\<open>range(num_epochs)\<close>: empty when the argument is zero or negative.\<close>

definition range_py :: "int \<Rightarrow> nat list" where
  "range_py n = [0 ..< nat n]"

text \<open>Lines 223-225: the tracker's URL, printed when the tracker is on.\<close>

definition wandb_lines :: "('m, 'x) collaborators \<Rightarrow> config \<Rightarrow> out list" where
  "wandb_lines E C = (if wandb_enabled C then [Line (''Wandb url: '' @ run_url E)] else [])"

text \<open>
  Lines 74-75, the construction of the two loaders.  The loader of the training set
  shuffles, and its sampler refuses an empty dataset; both loaders refuse a batch size
  that is not positive.  The loader of the validation set takes an empty dataset.
\<close>

definition dataloaders :: "('m, 'x) collaborators \<Rightarrow> config \<Rightarrow> error + unit" where
  "dataloaders E C =
     (if train_data E = [] then Inl ValueError
      else if batch_size C \<le> 0 then Inl ValueError
      else Inr ())"

text \<open>Line 78: the shape of the model is read off the first training example.\<close>

definition first_example :: "('m, 'x) collaborators \<Rightarrow> error + unit" where
  "first_example E = (if train_data E = [] then Inl IndexError else Inr ())"

text \<open>
  Lines 74-78 and 121-225, from a built model \<open>m0\<close> and a file system \<open>d0\<close>: the loaders
  are built and the first training example is read, then the loop runs and the summary is
  printed.
\<close>

definition script :: "('m, 'x) collaborators \<Rightarrow> config \<Rightarrow> 'm \<Rightarrow> (string \<rightharpoonup> 'm) \<Rightarrow> error + 'm state" where
  "script E C m0 d0 =
     bind_err (dataloaders E C) (\<lambda>_.
     bind_err (first_example E) (\<lambda>_.
     bind_err (epochs E C (range_py (num_epochs C)) (initial m0 d0)) (\<lambda>s.
       Inr (s\<lparr>stdout := stdout s @
              [Line (''MODEL_NAME='' @ final_model_name E C), YamlDump (metrics s)] @
              wandb_lines E C\<rparr>))))"

subsection \<open>A small run\<close>

text \<open>
  Concrete collaborators on which the definitions can be evaluated: \<open>n\<close> training and
  \<open>v\<close> validation examples with label 1, a loader that does not reorder, a model that is
  the number of optimiser updates made so far and scores every example \<open>loss_of m\<close>, a
  loss that is the first score of the batch, and scorers that return 1.
\<close>

definition example_collaborators :: "nat \<Rightarrow> nat \<Rightarrow> (nat \<Rightarrow> real) \<Rightarrow> (nat, unit) collaborators" where
  "example_collaborators n v loss_of =
     \<lparr>train_data = replicate n ((), 1), val_data = replicate v ((), 1),
      shuffle = (\<lambda>k xs. xs),
      forward = (\<lambda>t m xs. map (\<lambda>x. loss_of m) xs),
      criterion = (\<lambda>ps ys. case ps of [] \<Rightarrow> 0 | p # _ \<Rightarrow> p),
      optimizer_step = (\<lambda>m xs ys. Suc m),
      accuracy_score = (\<lambda>t p. Inr (Float 1)), f1_score = (\<lambda>t p. Inr (Float 1)),
      precision_score = (\<lambda>t p. Inr (Float 1)), recall_score = (\<lambda>t p. Inr (Float 1)),
      roc_auc_score = (\<lambda>t p. Inr (Float 1)),
      generate_model_name = ''generated'',
      model_path_from_name = (\<lambda>name. name @ ''.pt''),
      run_url = ''url''\<rparr>"

definition example_config :: "int \<Rightarrow> int \<Rightarrow> config" where
  "example_config b n = \<lparr>batch_size = b, num_epochs = n, wandb_enabled = False, model_name = ''m''\<rparr>"

text \<open>A validation loss that stays at one half, and one that falls with every update.\<close>

definition constant_loss :: "nat \<Rightarrow> real" where
  "constant_loss m = 1 / 2"

definition falling_loss :: "nat \<Rightarrow> real" where
  "falling_loss m = 1 / real (Suc m)"

definition rising_loss :: "nat \<Rightarrow> real" where
  "rising_loss m = real (Suc m)"

text \<open>
  The first \<open>n\<close> epochs of a run over one training and one validation example with
  batch size 1, from a model that has seen no update and an empty directory.
\<close>

definition example_run :: "(nat \<Rightarrow> real) \<Rightarrow> nat \<Rightarrow> error + nat state" where
  "example_run loss_of n =
     epochs (example_collaborators 1 1 loss_of) (example_config 1 2) [0 ..< n]
       (initial 0 Map.empty)"

subsection \<open>A run with scores\<close>

text \<open>
  Modelled from the spec: Section 7 has every reported metric lie in \<open>[0,1]\<close> and have
  exactly 4 decimal places.
\<close>

definition in_unit :: "pyfloat \<Rightarrow> bool" where
  "in_unit v = (case v of NaN \<Rightarrow> False | Float x \<Rightarrow> 0 \<le> x \<and> x \<le> 1)"

definition four_decimals :: "pyfloat \<Rightarrow> bool" where
  "four_decimals v = (case v of NaN \<Rightarrow> False | Float x \<Rightarrow> x * 10000 = of_int \<lfloor>x * 10000\<rfloor>)"

text \<open>
  Modelled from the spec: the scorers of scikit-learn on labels and predictions in
  \<open>{0, 1}\<close>, for the examples of Section 7.  Accuracy is the share of predictions that
  equal the label; precision, recall and F1 are the usual quotients of the counts of true
  positives, false positives and false negatives, 0 when the denominator is 0; ROC-AUC is
  the share of pairs of a positive and a negative example that the scores rank in the
  right order, a tie counting one half, and it is NaN when only one class is present.
\<close>

definition count_where :: "(real \<Rightarrow> int \<Rightarrow> bool) \<Rightarrow> real list \<Rightarrow> int list \<Rightarrow> nat" where
  "count_where P t p = length (filter (\<lambda>(a, b). P a b) (zip t p))"

definition ratio :: "nat \<Rightarrow> nat \<Rightarrow> pyfloat" where
  "ratio a b = (if b = 0 then Float 0 else Float (real a / real b))"

definition sk_accuracy :: "real list \<Rightarrow> int list \<Rightarrow> error + pyfloat" where
  "sk_accuracy t p =
     (if t = [] then Inl ValueError
      else Inr (ratio (count_where (\<lambda>a b. a = of_int b) t p) (length t)))"

definition sk_precision :: "real list \<Rightarrow> int list \<Rightarrow> error + pyfloat" where
  "sk_precision t p =
     (let tp = count_where (\<lambda>a b. a = 1 \<and> b = 1) t p;
          fp = count_where (\<lambda>a b. a \<noteq> 1 \<and> b = 1) t p
      in if t = [] then Inl ValueError else Inr (ratio tp (tp + fp)))"

definition sk_recall :: "real list \<Rightarrow> int list \<Rightarrow> error + pyfloat" where
  "sk_recall t p =
     (let tp = count_where (\<lambda>a b. a = 1 \<and> b = 1) t p;
          fn = count_where (\<lambda>a b. a = 1 \<and> b \<noteq> 1) t p
      in if t = [] then Inl ValueError else Inr (ratio tp (tp + fn)))"

definition sk_f1 :: "real list \<Rightarrow> int list \<Rightarrow> error + pyfloat" where
  "sk_f1 t p =
     (let tp = count_where (\<lambda>a b. a = 1 \<and> b = 1) t p;
          fp = count_where (\<lambda>a b. a \<noteq> 1 \<and> b = 1) t p;
          fn = count_where (\<lambda>a b. a = 1 \<and> b \<noteq> 1) t p
      in if t = [] then Inl ValueError else Inr (ratio (2 * tp) (2 * tp + fp + fn)))"

definition sk_roc_auc :: "real list \<Rightarrow> real list \<Rightarrow> error + pyfloat" where
  "sk_roc_auc t sc =
     (let pos = map snd (filter (\<lambda>(a, b). a = 1) (zip t sc));
          neg = map snd (filter (\<lambda>(a, b). a \<noteq> 1) (zip t sc))
      in if t = [] then Inl ValueError
         else if pos = [] \<or> neg = [] then Inr NaN
         else Inr (Float (sum_list (concat (map (\<lambda>p. map (\<lambda>n. if n < p then 1 else if n = p then 1 / 2 else 0) neg) pos))
                          / real (length pos * length neg))))"

text \<open>
  Collaborators for a run over a given validation set: one training example, a model
  whose score of an example is the example's input, a loss of one half, and the scorers
  above.
\<close>

definition scored_collaborators :: "(real \<times> real) list \<Rightarrow> (nat, real) collaborators" where
  "scored_collaborators vs =
     \<lparr>train_data = [(9 / 10, 1)], val_data = vs,
      shuffle = (\<lambda>k xs. xs),
      forward = (\<lambda>t m xs. xs),
      criterion = (\<lambda>ps ys. 1 / 2),
      optimizer_step = (\<lambda>m xs ys. Suc m),
      accuracy_score = sk_accuracy, f1_score = sk_f1,
      precision_score = sk_precision, recall_score = sk_recall,
      roc_auc_score = sk_roc_auc,
      generate_model_name = ''generated'',
      model_path_from_name = (\<lambda>name. name @ ''.pt''),
      run_url = ''url''\<rparr>"

section \<open>Batches of a loader\<close>

text \<open>
  A loader with a positive batch size yields every example once, in order, in
  \<open>\<lceil>n / b\<rceil>\<close> batches that are full except possibly the last.
\<close>

lemma chunks_Nil: "chunks b [] = []"
  by (simp add: chunks.simps)

lemma chunks_step: "0 < b \<Longrightarrow> xs \<noteq> [] \<Longrightarrow> chunks b xs = take b xs # chunks b (drop b xs)"
  by (subst chunks.simps) simp

lemma concat_chunks: "0 < b \<Longrightarrow> concat (chunks b xs) = xs"
proof (induction b xs rule: chunks.induct)
  case (1 b xs)
  show ?case
  proof (cases "xs = []")
    case True
    then show ?thesis by (simp add: chunks_Nil)
  next
    case False
    with 1 show ?thesis by (simp add: chunks_step)
  qed
qed

lemma ceil_div_step: "0 < b \<Longrightarrow> b \<le> n \<Longrightarrow> (n + b - 1) div b = Suc ((n - b + b - 1) div b)"
proof -
  assume b: "0 < b" and n: "b \<le> n"
  have "n + b - 1 = (n - 1) + b" using b n by arith
  then have "(n + b - 1) div b = (n - 1) div b + 1" using b by (simp only: div_add_self2) 
  moreover have "n - b + b - 1 = n - 1" using n by arith
  ultimately show ?thesis by (simp only: Suc_eq_plus1)
qed

lemma ceil_div_small: "0 < n \<Longrightarrow> n < b \<Longrightarrow> (n + b - 1) div b = Suc 0"
proof -
  assume n: "0 < n" and b: "n < b"
  have "n + b - 1 = (n - 1) + b" using n by arith
  then have "(n + b - 1) div b = (n - 1) div b + 1" using b by (simp only: div_add_self2)
  moreover have "(n - 1) div b = 0" using n b by (intro div_less) arith
  ultimately show ?thesis by (simp only: add_0 One_nat_def)
qed

lemma length_chunks: "0 < b \<Longrightarrow> length (chunks b xs) = (length xs + b - 1) div b"
proof (induction b xs rule: chunks.induct)
  case (1 b xs)
  show ?case
  proof (cases "xs = []")
    case True
    with 1(2) show ?thesis by (simp add: chunks_Nil)
  next
    case False
    then have pos: "0 < length xs" by simp
    from 1 False have IH: "length (chunks b (drop b xs)) = (length xs - b + b - 1) div b"
      by simp
    have step: "length (chunks b xs) = Suc (length (chunks b (drop b xs)))"
      using False 1(2) by (simp add: chunks_step)
    show ?thesis
    proof (cases "b \<le> length xs")
      case True
      show ?thesis
        unfolding step IH using ceil_div_step [OF 1(2) True] by simp
    next
      case False
      then have lt: "length xs < b" by simp
      then have "drop b xs = []" by simp
      then have "length (chunks b xs) = Suc 0" unfolding step by (simp add: chunks_Nil)
      then show ?thesis using ceil_div_small [OF pos lt] by simp
    qed
  qed
qed

lemma sizes_chunks: "0 < b \<Longrightarrow> c \<in> set (chunks b xs) \<Longrightarrow> 0 < length c \<and> length c \<le> b"
proof (induction b xs rule: chunks.induct)
  case (1 b xs)
  show ?case
  proof (cases "xs = []")
    case True
    with 1(3) show ?thesis by (simp add: chunks_Nil)
  next
    case False
    with 1 show ?thesis by (auto simp add: chunks_step)
  qed
qed

lemma butlast_chunks: "0 < b \<Longrightarrow> c \<in> set (butlast (chunks b xs)) \<Longrightarrow> length c = b"
proof (induction b xs rule: chunks.induct)
  case (1 b xs)
  show ?case
  proof (cases "xs = []")
    case True
    with 1(3) show ?thesis by (simp add: chunks_Nil)
  next
    case False
    note ne = this
    show ?thesis
    proof (cases "drop b xs = []")
      case True
      with ne 1(2,3) show ?thesis by (simp add: chunks_step chunks_Nil)
    next
      case False
      then have "b < length xs" by simp
      moreover from False 1(2) have "chunks b (drop b xs) \<noteq> []" by (simp add: chunks_step)
      ultimately show ?thesis using 1 ne by (auto simp add: chunks_step)
    qed
  qed
qed

section \<open>Errors\<close>


lemma bind_err_Inl: "bind_err (Inl e) f = Inl e"
  by (simp add: bind_err_def)

lemma bind_err_eq_Inr: "(bind_err r f = Inr b) = (\<exists>a. r = Inr a \<and> f a = Inr b)"
  by (cases r) (simp_all add: bind_err_def)

section \<open>One epoch\<close>

text \<open>
  The training pass touches the model and its running total only; the validation pass
  is given in closed form; the remaining steps of an epoch are read off their results.
\<close>

lemma fold_train_step:
  "\<exists>m t. fold (train_step E) bs s = s\<lparr>model := m, total_train_loss := t\<rparr>"
proof (induction bs arbitrary: s)
  case Nil
  have "s = s\<lparr>model := model s, total_train_loss := total_train_loss s\<rparr>" by simp
  then show ?case by (metis fold_simps(1))
next
  case (Cons x bs)
  obtain m t where 1: "train_step E x s = s\<lparr>model := m, total_train_loss := t\<rparr>"
    by (simp add: train_step_def Let_def)
  obtain m' t' where 2: "fold (train_step E) bs (train_step E x s)
      = (train_step E x s)\<lparr>model := m', total_train_loss := t'\<rparr>"
    using Cons.IH by blast
  have "fold (train_step E) (x # bs) s = s\<lparr>model := m', total_train_loss := t'\<rparr>"
    using 2 by (simp add: 1)
  then show ?case by blast
qed

lemma training_shape: "\<exists>m t. training E C k s = s\<lparr>model := m, total_train_loss := t\<rparr>"
proof -
  from fold_train_step [of E "train_dataloader E C k" "s\<lparr>total_train_loss := 0\<rparr>"]
  obtain m t where "fold (train_step E) (train_dataloader E C k) (s\<lparr>total_train_loss := 0\<rparr>)
      = (s\<lparr>total_train_loss := 0\<rparr>)\<lparr>model := m, total_train_loss := t\<rparr>"
    by auto
  then have "training E C k s = s\<lparr>model := m, total_train_loss := t\<rparr>"
    by (simp add: training_def)
  then show ?thesis by blast
qed

lemma fold_val_step:
  "fold (val_step E) bs s =
     s\<lparr>total_val_loss := total_val_loss s +
          sum_list (map (\<lambda>x. criterion E (forward E False (model s) (map fst x)) (map snd x) *
                                real (length x)) bs),
       y_true := y_true s @ concat (map (map snd) bs),
       y_score := y_score s @ concat (map (\<lambda>x. forward E False (model s) (map fst x)) bs),
       y_pred := y_pred s @ map threshold (concat (map (\<lambda>x. forward E False (model s) (map fst x)) bs))\<rparr>"
proof (induction bs arbitrary: s)
  case Nil
  show ?case by simp
next
  case (Cons x bs)
  show ?case
    unfolding fold_simps Cons.IH
    by (simp add: val_step_def Let_def add.assoc)
qed

lemma validation_eq:
  "validation E C s =
     s\<lparr>total_val_loss :=
          sum_list (map (\<lambda>x. criterion E (forward E False (model s) (map fst x)) (map snd x) *
                                real (length x)) (val_dataloader E C)),
       y_true := concat (map (map snd) (val_dataloader E C)),
       y_score := concat (map (\<lambda>x. forward E False (model s) (map fst x)) (val_dataloader E C)),
       y_pred := map threshold
          (concat (map (\<lambda>x. forward E False (model s) (map fst x)) (val_dataloader E C)))\<rparr>"
  unfolding validation_def fold_val_step by simp

lemma epoch_Inr:
  "(epoch E C k s = Inr s') =
     (\<exists>s1 s2 s3. epoch_losses E (validation E C (training E C k s)) = Inr s1 \<and>
        selection E s1 = Inr s2 \<and> wandb_logging E C k s2 = Inr s3 \<and>
        s' = model_saving E C k s3)"
  unfolding epoch_def bind_err_eq_Inr by auto

lemma epoch_losses_Inr:
  "epoch_losses E s = Inr s1 \<Longrightarrow> \<exists>a b. s1 = s\<lparr>train_loss := a, val_loss := b\<rparr>"
  by (auto simp add: epoch_losses_def split: if_splits)

lemma selection_Inr:
  assumes "selection E s1 = Inr s2"
  shows "\<exists>ms. s2 = (if new_best (lowest_validation_loss s1) (val_loss s1)
            then s1\<lparr>lowest_validation_loss := Some (val_loss s1), metrics := ms\<rparr> else s1)"
  using assms by (auto simp add: selection_def bind_err_eq_Inr split: if_splits)

lemma wandb_logging_Inr:
  "wandb_logging E C k s2 = Inr s3 \<Longrightarrow> \<exists>l. s3 = s2\<lparr>wandb_log := l\<rparr>"
proof (cases "wandb_enabled C")
  case True
  assume "wandb_logging E C k s2 = Inr s3"
  then show ?thesis using True by (auto simp add: wandb_logging_def bind_err_eq_Inr)
next
  case False
  assume "wandb_logging E C k s2 = Inr s3"
  then have "s3 = s2\<lparr>wandb_log := wandb_log s2\<rparr>" using False by (simp add: wandb_logging_def)
  then show ?thesis by blast
qed

lemma epoch_summary:
  assumes "epoch E C k s = Inr s'"
  shows "lowest_validation_loss s' =
           (if new_best (lowest_validation_loss s) (val_loss s') then Some (val_loss s')
            else lowest_validation_loss s)"
    and "\<not> new_best (lowest_validation_loss s) (val_loss s') \<Longrightarrow> metrics s' = metrics s"
    and "writes s' =
           (if save_due (lowest_validation_loss s') (val_loss s') then writes s @ [k]
            else writes s)"
    and "disk s' =
           (if save_due (lowest_validation_loss s') (val_loss s')
            then (disk s)(model_path_from_name E (final_model_name E C) \<mapsto> model s')
            else disk s)"
proof -
  obtain s1 s2 s3 where
    1: "epoch_losses E (validation E C (training E C k s)) = Inr s1" and
    2: "selection E s1 = Inr s2" and
    3: "wandb_logging E C k s2 = Inr s3" and
    4: "s' = model_saving E C k s3"
    using assms unfolding epoch_Inr by blast
  obtain m t where 5: "training E C k s = s\<lparr>model := m, total_train_loss := t\<rparr>"
    using training_shape [of E C k s] by auto
  obtain a b where 6: "s1 = (validation E C (training E C k s))\<lparr>train_loss := a, val_loss := b\<rparr>"
    using epoch_losses_Inr [OF 1] by blast
  obtain ms where 7: "s2 = (if new_best (lowest_validation_loss s1) (val_loss s1)
            then s1\<lparr>lowest_validation_loss := Some (val_loss s1), metrics := ms\<rparr> else s1)"
    using selection_Inr [OF 2] by blast
  obtain l where 8: "s3 = s2\<lparr>wandb_log := l\<rparr>"
    using wandb_logging_Inr [OF 3] by blast
  have s1: "lowest_validation_loss s1 = lowest_validation_loss s" "metrics s1 = metrics s"
    "writes s1 = writes s" "disk s1 = disk s" "val_loss s1 = b"
    unfolding 6 validation_eq 5 by simp_all
  have s3: "lowest_validation_loss s3 = (if new_best (lowest_validation_loss s) b then Some b
            else lowest_validation_loss s)"
    "\<not> new_best (lowest_validation_loss s) b \<Longrightarrow> metrics s3 = metrics s"
    "writes s3 = writes s" "disk s3 = disk s" "val_loss s3 = b" "model s3 = model s1"
    unfolding 8 7 using s1 by simp_all
  have v: "val_loss s' = b" "lowest_validation_loss s' = lowest_validation_loss s3"
    "metrics s' = metrics s3" "model s' = model s3"
    unfolding 4 using s3 by (simp_all add: model_saving_def Let_def)
  show "lowest_validation_loss s' =
           (if new_best (lowest_validation_loss s) (val_loss s') then Some (val_loss s')
            else lowest_validation_loss s)"
    unfolding v s3 by simp
  show "\<not> new_best (lowest_validation_loss s) (val_loss s') \<Longrightarrow> metrics s' = metrics s"
    unfolding v using s3(2) by simp
  show "writes s' =
           (if save_due (lowest_validation_loss s') (val_loss s') then writes s @ [k]
            else writes s)"
    unfolding v unfolding 4 using s3 by (simp add: model_saving_def Let_def)
  show "disk s' =
           (if save_due (lowest_validation_loss s') (val_loss s')
            then (disk s)(model_path_from_name E (final_model_name E C) \<mapsto> model s')
            else disk s)"
    unfolding v unfolding 4 using s3 by (simp add: model_saving_def Let_def)
qed

text \<open>
  What an epoch leaves in the collected lists, and the training pass carried over a change
  of the fields it does not read.
\<close>

lemma epoch_collected:
  assumes "epoch E C k s = Inr s'"
  shows "y_true s' = concat (map (map snd) (val_dataloader E C))"
    and "y_score s' = concat (map (\<lambda>x. forward E False (model s') (map fst x)) (val_dataloader E C))"
    and "y_pred s' = map threshold (y_score s')"
proof -
  obtain s1 s2 s3 where
    1: "epoch_losses E (validation E C (training E C k s)) = Inr s1" and
    2: "selection E s1 = Inr s2" and
    3: "wandb_logging E C k s2 = Inr s3" and
    4: "s' = model_saving E C k s3"
    using assms unfolding epoch_Inr by blast
  obtain a b where 6: "s1 = (validation E C (training E C k s))\<lparr>train_loss := a, val_loss := b\<rparr>"
    using epoch_losses_Inr [OF 1] by blast
  obtain ms where 7: "s2 = (if new_best (lowest_validation_loss s1) (val_loss s1)
            then s1\<lparr>lowest_validation_loss := Some (val_loss s1), metrics := ms\<rparr> else s1)"
    using selection_Inr [OF 2] by blast
  obtain l where 8: "s3 = s2\<lparr>wandb_log := l\<rparr>"
    using wandb_logging_Inr [OF 3] by blast
  have s': "y_true s' = y_true s1" "y_score s' = y_score s1" "y_pred s' = y_pred s1"
    "model s' = model s1"
    unfolding 4 8 7 by (simp_all add: model_saving_def Let_def)
  have m: "model s1 = model (training E C k s)"
    unfolding 6 validation_eq by simp
  show "y_true s' = concat (map (map snd) (val_dataloader E C))"
    unfolding s' unfolding 6 validation_eq by simp
  show "y_score s' = concat (map (\<lambda>x. forward E False (model s') (map fst x)) (val_dataloader E C))"
    unfolding s' m unfolding 6 validation_eq by simp
  show "y_pred s' = map threshold (y_score s')"
    unfolding s' unfolding 6 validation_eq by simp
qed

lemma length_concat_forward:
  assumes "\<forall>m xs. length (forward E False m xs) = length xs"
  shows "length (concat (map (\<lambda>x. forward E False m (map fst x)) bs)) = length (concat bs)"
  using assms by (induction bs) simp_all


section \<open>The loop\<close>

text \<open>
  The loop over \<open>ks @ [k]\<close> is the loop over \<open>ks\<close> followed by epoch \<open>k\<close>; after one
  epoch a best loss exists, and every epoch adds at most one write.
\<close>

lemma epochs_append:
  "epochs E C (ks @ [k]) s = bind_err (epochs E C ks s) (epoch E C k)"
proof (induction ks arbitrary: s)
  case Nil
  show ?case by (cases "epoch E C k s") (simp_all add: bind_err_def)
next
  case (Cons a ks)
  show ?case by (cases "epoch E C a s") (simp_all add: bind_err_def Cons.IH)
qed

lemma epochs_Suc:
  "(epochs E C [0..<Suc i] s0 = Inr s') =
     (\<exists>s. epochs E C [0..<i] s0 = Inr s \<and> epoch E C i s = Inr s')"
  by (simp add: epochs_append bind_err_eq_Inr)

lemma epochs_lowest:
  "epochs E C ks s = Inr s' \<Longrightarrow> ks \<noteq> [] \<or> lowest_validation_loss s \<noteq> None \<Longrightarrow>
     lowest_validation_loss s' \<noteq> None"
proof (induction ks arbitrary: s)
  case Nil
  then show ?case by simp
next
  case (Cons k ks)
  obtain s1 where 1: "epoch E C k s = Inr s1" and 2: "epochs E C ks s1 = Inr s'"
    using Cons.prems(1) by (auto simp add: bind_err_eq_Inr)
  have "lowest_validation_loss s1 \<noteq> None"
    using epoch_summary(1) [OF 1] by (auto simp add: new_best_def split: option.splits)
  then show ?case using Cons.IH [OF 2] by blast
qed

lemma epochs_writes:
  "epochs E C ks s = Inr s' \<Longrightarrow>
     length (writes s) \<le> length (writes s') \<and> length (writes s') \<le> length (writes s) + length ks"
proof (induction ks arbitrary: s)
  case Nil
  then show ?case by simp
next
  case (Cons k ks)
  obtain s1 where 1: "epoch E C k s = Inr s1" and 2: "epochs E C ks s1 = Inr s'"
    using Cons.prems(1) by (auto simp add: bind_err_eq_Inr)
  have "length (writes s1) = length (writes s) \<or> length (writes s1) = Suc (length (writes s))"
    using epoch_summary(3) [OF 1] by (simp split: if_splits)
  then show ?case using Cons.IH [OF 2] by auto
qed

text \<open>The first epoch of a run always writes, so a run of at least one epoch has a write.\<close>

lemma first_epoch_writes:
  assumes "epoch E C k (initial m0 d0) = Inr s1"
  shows "writes s1 = [k]"
proof -
  have 1: "lowest_validation_loss s1 = Some (val_loss s1)"
    using epoch_summary(1) [OF assms] by (simp add: initial_def new_best_def)
  show ?thesis
    using epoch_summary(3) [OF assms] unfolding 1 by (simp add: save_due_def initial_def)
qed

lemma run_writes_once:
  assumes "epochs E C [0..<Suc n] (initial m0 d0) = Inr s'"
  shows "1 \<le> length (writes s')"
proof -
  have "[0..<Suc n] = 0 # [Suc 0..<Suc n]" by (simp add: upt_conv_Cons)
  then have "epochs E C (0 # [Suc 0..<Suc n]) (initial m0 d0) = Inr s'" using assms by simp
  then obtain s1 where 1: "epoch E C 0 (initial m0 d0) = Inr s1"
    and 2: "epochs E C [Suc 0..<Suc n] s1 = Inr s'"
    by (auto simp add: bind_err_eq_Inr)
  have "length (writes s1) = 1" using first_epoch_writes [OF 1] by simp
  then show ?thesis using epochs_writes [OF 2] by simp
qed

section \<open>Evaluating the small run\<close>

text \<open>The equations that evaluate a run of the example by rewriting.\<close>

lemmas example_defs = example_run_def example_collaborators_def example_config_def
  initial_def epoch_def training_def validation_def train_dataloader_def val_dataloader_def
  train_step_def val_step_def epoch_losses_def selection_def scores_def wandb_logging_def
  model_saving_def save_due_def new_best_def final_model_name_def threshold_def
  round4_def round_half_even_def
  bind_err_def chunks_step chunks_Nil Let_def upt_conv_Cons

lemmas scored_defs = scored_collaborators_def sk_accuracy_def sk_f1_def sk_precision_def
  sk_recall_def sk_roc_auc_def count_where_def ratio_def in_unit_def four_decimals_def

text \<open>The loader on the sizes of the specification's example.\<close>

lemma train_batches_example:
  "map length (train_dataloader (example_collaborators 130 50 constant_loss) (example_config 64 1) k)
     = [64, 64, 2]"
  by (simp add: train_dataloader_def example_collaborators_def example_config_def
      chunks_step chunks_Nil)

lemma val_batches_example:
  "map length (val_dataloader (example_collaborators 130 50 constant_loss) (example_config 64 1))
     = [50]"
  by (simp add: val_dataloader_def example_collaborators_def example_config_def
      chunks_step chunks_Nil)

section \<open>The number of batches as a ceiling\<close>

text \<open>
  The number of slices, \<open>(n + b - 1) div b\<close>, is \<open>\<lceil>n / b\<rceil>\<close>; every slice but the last is
  full and none is empty.
\<close>

lemma ceiling_div_nat:
  assumes "0 < b"
  shows "\<lceil>real n / real b\<rceil> = int ((n + b - 1) div b)"
proof -
  define z where "z = (n + b - 1) div b"
  have z1: "z * b \<le> n + b - 1" unfolding z_def by (rule div_times_less_eq_dividend)
  have z2: "n + b - 1 < b + z * b" unfolding z_def using assms by (rule dividend_less_div_times)
  have up: "n \<le> z * b" using z2 assms by linarith
  have lo: "z * b < n + b" using z1 assms by linarith
  have rb: "0 < real b" using assms by simp
  have "real n \<le> real z * real b" using up by (metis of_nat_le_iff of_nat_mult)
  then have 1: "real n / real b \<le> real z" using rb by (simp add: pos_divide_le_eq)
  have "real z * real b < real n + real b" using lo by (metis of_nat_less_iff of_nat_mult of_nat_add)
  then have "(real z - 1) * real b < real n" by (simp add: algebra_simps)
  then have 2: "real z - 1 < real n / real b" using rb by (simp add: pos_less_divide_eq)
  have "\<lceil>real n / real b\<rceil> = int z"
    using 1 2 by (intro ceiling_unique) simp_all
  then show ?thesis unfolding z_def .
qed

lemma chunks_count:
  assumes "0 < b"
  shows "int (length (chunks (nat b) xs)) = \<lceil>real (length xs) / real_of_int b\<rceil>"
proof -
  have b: "0 < nat b" using assms by simp
  have r: "real_of_int b = real (nat b)" using assms by simp
  show ?thesis unfolding r ceiling_div_nat [OF b] length_chunks [OF b] ..
qed

lemma chunks_sizes:
  assumes "0 < b"
  shows "(\<forall>c \<in> set (butlast (chunks (nat b) xs)). int (length c) = b) \<and>
         (\<forall>c \<in> set (chunks (nat b) xs). 0 < length c \<and> int (length c) \<le> b)"
proof -
  have b: "0 < nat b" using assms by simp
  have 1: "\<forall>c \<in> set (butlast (chunks (nat b) xs)). int (length c) = b"
    using butlast_chunks [OF b] assms by fastforce
  have 2: "\<forall>c \<in> set (chunks (nat b) xs). 0 < length c \<and> int (length c) \<le> b"
    using sizes_chunks [OF b] assms by fastforce
  show ?thesis using 1 2 by blast
qed

section \<open>Rounding and the stored metrics\<close>







section \<open>Before the loop\<close>

text \<open>Without a training example, or with a batch size that is not positive, the script aborts.\<close>

lemma script_setup_errors:
  "train_data E = [] \<or> batch_size C \<le> 0 \<Longrightarrow> script E C m0 d0 = Inl ValueError"
  by (auto simp add: script_def dataloaders_def bind_err_Inl)

section \<open>Claims\<close>

subsection \<open>Number of batches\<close>

text \<open>
  C3. With a positive batch size \<open>b\<close> (and a shuffling that keeps the number of
  examples), the loader over the \<open>n\<close> training examples yields \<open>\<lceil>n / b\<rceil>\<close> batches in each
  epoch and so does the loader over the validation examples; every batch but the last has
  \<open>b\<close> examples, the last has between 1 and \<open>b\<close>, and together the batches are the whole
  dataset.
\<close>

theorem batches_per_epoch:
  assumes "0 < batch_size C"
    and "length (shuffle E k (train_data E)) = length (train_data E)"
  shows "int (length (train_dataloader E C k)) =
           \<lceil>real (length (train_data E)) / real_of_int (batch_size C)\<rceil> \<and>
         int (length (val_dataloader E C)) =
           \<lceil>real (length (val_data E)) / real_of_int (batch_size C)\<rceil> \<and>
         (\<forall>c \<in> set (butlast (train_dataloader E C k)). int (length c) = batch_size C) \<and>
         (\<forall>c \<in> set (train_dataloader E C k). 0 < length c \<and> int (length c) \<le> batch_size C) \<and>
         (\<forall>c \<in> set (butlast (val_dataloader E C)). int (length c) = batch_size C) \<and>
         (\<forall>c \<in> set (val_dataloader E C). 0 < length c \<and> int (length c) \<le> batch_size C) \<and>
         concat (train_dataloader E C k) = shuffle E k (train_data E) \<and>
         concat (val_dataloader E C) = val_data E"
proof -
  have b: "0 < nat (batch_size C)" using assms(1) by simp
  have 1: "int (length (train_dataloader E C k)) =
           \<lceil>real (length (train_data E)) / real_of_int (batch_size C)\<rceil>"
    unfolding train_dataloader_def chunks_count [OF assms(1)] assms(2) ..
  have 2: "int (length (val_dataloader E C)) =
           \<lceil>real (length (val_data E)) / real_of_int (batch_size C)\<rceil>"
    unfolding val_dataloader_def by (rule chunks_count [OF assms(1)])
  note 3 = chunks_sizes [OF assms(1), of "shuffle E k (train_data E)", folded train_dataloader_def]
  note 4 = chunks_sizes [OF assms(1), of "val_data E", folded val_dataloader_def]
  have 5: "concat (train_dataloader E C k) = shuffle E k (train_data E)"
    unfolding train_dataloader_def by (rule concat_chunks [OF b])
  have 6: "concat (val_dataloader E C) = val_data E"
    unfolding val_dataloader_def by (rule concat_chunks [OF b])
  show ?thesis using 1 2 3 4 5 6 by blast
qed

text \<open>
  The theorem on the sizes of the specification's example: 130 training examples in
  batches of 64 are 3 batches of 64, 64 and 2 examples, and 50 validation examples are
  one batch of 50.
\<close>

theorem batches_per_epoch_witness:
  "0 < batch_size (example_config 64 1) \<and>
   map length (train_dataloader (example_collaborators 130 50 constant_loss) (example_config 64 1) 0)
     = [64, 64, 2] \<and>
   map length (val_dataloader (example_collaborators 130 50 constant_loss) (example_config 64 1))
     = [50] \<and>
   \<lceil>real (length (train_data (example_collaborators 130 50 constant_loss))) /
      real_of_int (batch_size (example_config 64 1))\<rceil> = 3 \<and>
   \<lceil>real (length (val_data (example_collaborators 130 50 constant_loss))) /
      real_of_int (batch_size (example_config 64 1))\<rceil> = 1"
  using batches_per_epoch [of "example_config 64 1" "example_collaborators 130 50 constant_loss" 0]
  by (simp add: train_dataloader_def val_dataloader_def example_collaborators_def
      example_config_def chunks_step chunks_Nil)

text \<open>
  The totals handed to the progress bars on lines 123-124 are another matter: for 128
  examples in batches of 64 the bar is told 3 while the loader yields 2.  The loop runs
  over the loader, so the total changes the display only.
\<close>

lemma progress_total_example:
  "train_batches (example_collaborators 128 1 constant_loss) (example_config 64 1) = 3 \<and>
   length (train_dataloader (example_collaborators 128 1 constant_loss) (example_config 64 1) 0) = 2"
  by (simp add: train_batches_def train_dataloader_def example_collaborators_def
      example_config_def length_chunks)

subsection \<open>A run without epochs\<close>




subsection \<open>The best validation loss\<close>

text \<open>
  C2. In every run that completes epochs \<open>0, \<dots>, i\<close>: before epoch 0 no best loss is set
  and after it the best loss is that epoch's validation loss; for \<open>i \<ge> 1\<close> a best loss
  exists before epoch \<open>i\<close> and the best loss after epoch \<open>i\<close> is less than or equal to it.
\<close>

theorem best_loss_never_rises:
  assumes "epochs E C [0..<Suc i] (initial m0 d0) = Inr s'"
  shows "\<exists>s. epochs E C [0..<i] (initial m0 d0) = Inr s \<and> epoch E C i s = Inr s' \<and>
           (case lowest_validation_loss s of
              None \<Rightarrow> i = 0 \<and> lowest_validation_loss s' = Some (val_loss s')
            | Some b \<Rightarrow> 0 < i \<and> (\<exists>b'. lowest_validation_loss s' = Some b' \<and> b' \<le> b))"
proof -
  obtain s where 1: "epochs E C [0..<i] (initial m0 d0) = Inr s" and 2: "epoch E C i s = Inr s'"
    using assms unfolding epochs_Suc by blast
  have 3: "lowest_validation_loss s' =
           (if new_best (lowest_validation_loss s) (val_loss s') then Some (val_loss s')
            else lowest_validation_loss s)"
    by (rule epoch_summary(1) [OF 2])
  have "case lowest_validation_loss s of
              None \<Rightarrow> i = 0 \<and> lowest_validation_loss s' = Some (val_loss s')
            | Some b \<Rightarrow> 0 < i \<and> (\<exists>b'. lowest_validation_loss s' = Some b' \<and> b' \<le> b)"
  proof (cases "i = 0")
    case True
    then have "s = initial m0 d0" using 1 by simp
    then have "lowest_validation_loss s = None" by (simp add: initial_def)
    then show ?thesis using 3 True by (simp add: new_best_def)
  next
    case False
    then have "[0..<i] \<noteq> []" by simp
    then have "lowest_validation_loss s \<noteq> None" using epochs_lowest [OF 1] by blast
    then obtain b where b: "lowest_validation_loss s = Some b" by blast
    show ?thesis using 3 False unfolding b by (simp add: new_best_def)
  qed
  then show ?thesis using 1 2 by blast
qed

text \<open>The theorem at the example with a falling loss, for \<open>i = 1\<close>.\<close>

theorem best_loss_never_rises_witness:
  "example_run falling_loss 2 = Inr (projr (example_run falling_loss 2)) \<and>
   lowest_validation_loss (projr (example_run falling_loss 1)) = Some (1 / 2) \<and>
   lowest_validation_loss (projr (example_run falling_loss 2)) = Some (1 / 3)"
  using best_loss_never_rises [of "example_collaborators 1 1 falling_loss" "example_config 1 2" 1
      0 Map.empty "projr (example_run falling_loss 2)"]
  by (simp add: example_defs falling_loss_def)

subsection \<open>Checkpoint writes\<close>

text \<open>
  C1, as stated, fails on a tie and on a run without epochs. In the run of the example
  with a constant loss, epoch 1 has the validation loss of epoch 0, the selection rule does
  not fire, and yet the checkpoint is written a second time: line 213 tests
  \<^verbatim>\<open>lowest_validation_loss == val_loss\<close>, which also holds on a tie. And the run of no
  epoch writes nothing, so the number of writes is not at least 1.
\<close>

theorem tie_writes_and_empty_run_does_not:
  "\<not> new_best (lowest_validation_loss (projr (example_run constant_loss 1)))
        (val_loss (projr (example_run constant_loss 2))) \<and>
   epoch (example_collaborators 1 1 constant_loss) (example_config 1 2) 1
     (projr (example_run constant_loss 1)) = Inr (projr (example_run constant_loss 2)) \<and>
   writes (projr (example_run constant_loss 1)) = [0] \<and>
   writes (projr (example_run constant_loss 2)) = [0, 1] \<and>
   writes (projr (example_run constant_loss 0)) = []"
  by (simp add: example_defs constant_loss_def)

text \<open>
  C1, amended. In a run that has completed the epochs \<open>0, \<dots>, n - 1\<close>: a run of no epoch
  has written nothing and left the directory as it was; a run of at least one epoch has
  written at least once; and the number of writes is at most the number of epochs.  If
  epoch \<open>n\<close> follows and the selection rule fires in it (no best loss yet, or a validation
  loss strictly below it), the checkpoint is written in that epoch and holds the model of
  that epoch; if its validation loss is strictly above the best loss, nothing is written
  and the directory is unchanged.
\<close>

theorem checkpoint_writes:
  assumes "epochs E C [0..<n] (initial m0 d0) = Inr s"
  shows "(n = 0 \<longrightarrow> writes s = [] \<and> disk s = d0) \<and>
         (0 < n \<longrightarrow> 1 \<le> length (writes s)) \<and>
         length (writes s) \<le> n \<and>
         (\<forall>s'. epoch E C n s = Inr s' \<longrightarrow>
            (new_best (lowest_validation_loss s) (val_loss s') \<longrightarrow>
               writes s' = writes s @ [n] \<and>
               disk s' (model_path_from_name E (final_model_name E C)) = Some (model s')) \<and>
            ((\<exists>b. lowest_validation_loss s = Some b \<and> b < val_loss s') \<longrightarrow>
               writes s' = writes s \<and> disk s' = disk s))"
proof -
  have a: "n = 0 \<longrightarrow> writes s = [] \<and> disk s = d0"
    using assms by (auto simp add: initial_def)
  have b: "0 < n \<longrightarrow> 1 \<le> length (writes s)"
  proof
    assume "0 < n"
    then obtain j where j: "n = Suc j" by (cases n) simp_all
    show "1 \<le> length (writes s)" using run_writes_once [of E C j m0 d0 s] assms j by simp
  qed
  have c: "length (writes s) \<le> n"
    using epochs_writes [OF assms] by (simp add: initial_def)
  have d: "\<forall>s'. epoch E C n s = Inr s' \<longrightarrow>
            (new_best (lowest_validation_loss s) (val_loss s') \<longrightarrow>
               writes s' = writes s @ [n] \<and>
               disk s' (model_path_from_name E (final_model_name E C)) = Some (model s')) \<and>
            ((\<exists>b. lowest_validation_loss s = Some b \<and> b < val_loss s') \<longrightarrow>
               writes s' = writes s \<and> disk s' = disk s)"
  proof (intro allI impI)
    fix s' assume e: "epoch E C n s = Inr s'"
    note sm = epoch_summary [OF e]
    have 1: "new_best (lowest_validation_loss s) (val_loss s') \<longrightarrow>
            writes s' = writes s @ [n] \<and>
            disk s' (model_path_from_name E (final_model_name E C)) = Some (model s')"
      using sm(1) sm(3) sm(4) by (simp add: save_due_def)
    have 2: "(\<exists>b. lowest_validation_loss s = Some b \<and> b < val_loss s') \<longrightarrow>
            writes s' = writes s \<and> disk s' = disk s"
      using sm(1) sm(3) sm(4) by (auto simp add: save_due_def new_best_def)
    show "(new_best (lowest_validation_loss s) (val_loss s') \<longrightarrow>
               writes s' = writes s @ [n] \<and>
               disk s' (model_path_from_name E (final_model_name E C)) = Some (model s')) \<and>
            ((\<exists>b. lowest_validation_loss s = Some b \<and> b < val_loss s') \<longrightarrow>
               writes s' = writes s \<and> disk s' = disk s)"
      using 1 2 by blast
  qed
  show ?thesis using a b c d by blast
qed

text \<open>
  The theorem at the example with a rising loss, for \<open>n = 1\<close>: epoch 0 writes, epoch 1 has
  the loss 3 above the best loss 2 and does not.
\<close>

theorem checkpoint_writes_witness:
  "example_run rising_loss 1 = Inr (projr (example_run rising_loss 1)) \<and>
   epoch (example_collaborators 1 1 rising_loss) (example_config 1 2) 1
     (projr (example_run rising_loss 1)) = Inr (projr (example_run rising_loss 2)) \<and>
   lowest_validation_loss (projr (example_run rising_loss 1)) = Some 2 \<and>
   val_loss (projr (example_run rising_loss 2)) = 3 \<and>
   writes (projr (example_run rising_loss 1)) = [0] \<and>
   writes (projr (example_run rising_loss 2)) = [0]"
  using checkpoint_writes [of "example_collaborators 1 1 rising_loss" "example_config 1 2" 1
      0 Map.empty "projr (example_run rising_loss 1)"]
  by (simp add: example_defs rising_loss_def)

subsection \<open>An epoch that is not selected\<close>

text \<open>
  C5. The specification has an epoch in which the selection rule does not fire leave the
  best loss, the best metrics and the checkpoint on disk as they were. On a tie the code
  does not: in the run of the example with a constant loss, epoch 1 repeats the loss
  \<open>1 / 2\<close> of epoch 0, the best loss and the metrics stay, but the file \<^verbatim>\<open>m.pt\<close>, which held
  the model after one update, is replaced by the model after two.
\<close>

theorem tie_rewrites_checkpoint:
  "epoch (example_collaborators 1 1 constant_loss) (example_config 1 2) 1
     (projr (example_run constant_loss 1)) = Inr (projr (example_run constant_loss 2)) \<and>
   lowest_validation_loss (projr (example_run constant_loss 1)) = Some (1 / 2) \<and>
   val_loss (projr (example_run constant_loss 2)) = 1 / 2 \<and>
   lowest_validation_loss (projr (example_run constant_loss 2)) = Some (1 / 2) \<and>
   metrics (projr (example_run constant_loss 2)) = metrics (projr (example_run constant_loss 1)) \<and>
   disk (projr (example_run constant_loss 1)) ''m.pt'' = Some 1 \<and>
   disk (projr (example_run constant_loss 2)) ''m.pt'' = Some 2"
  by (simp add: example_defs constant_loss_def)

subsection \<open>The stored metrics\<close>




subsection \<open>The collected predictions\<close>

text \<open>
  C8. After every epoch, given a positive batch size and a model that returns one score
  for each example of a batch: the collected labels are the labels of the whole validation
  set in its order; the collected scores are what the model of that epoch returns, in
  evaluation mode, on the batches of the validation loader, which together are the whole
  validation set, so there is one score for each validation example; and the collected
  predictions are the scores under the threshold, the prediction of an example being 1
  exactly when its score is strictly greater than 0.5.  A score of exactly 0.5 gives the
  prediction 0.
\<close>

theorem validation_lists:
  assumes "0 < batch_size C"
    and "\<forall>m xs. length (forward E False m xs) = length xs"
    and "epoch E C k s = Inr s'"
  shows "y_true s' = map snd (val_data E) \<and>
         concat (val_dataloader E C) = val_data E \<and>
         y_score s' = concat (map (\<lambda>x. forward E False (model s') (map fst x))
                                  (val_dataloader E C)) \<and>
         y_pred s' = map threshold (y_score s') \<and>
         length (y_score s') = length (val_data E) \<and>
         length (y_pred s') = length (val_data E) \<and>
         (\<forall>i < length (val_data E). (y_pred s' ! i = 1) = (0.5 < y_score s' ! i)) \<and>
         threshold 0.5 = 0"
proof -
  have b: "0 < nat (batch_size C)" using assms(1) by simp
  have c: "concat (val_dataloader E C) = val_data E"
    unfolding val_dataloader_def by (rule concat_chunks [OF b])
  have "y_true s' = map snd (concat (val_dataloader E C))"
    unfolding epoch_collected(1) [OF assms(3)] by (simp add: map_concat)
  then have 1: "y_true s' = map snd (val_data E)" unfolding c .
  have sc: "y_score s' = concat (map (\<lambda>x. forward E False (model s') (map fst x))
                                  (val_dataloader E C))"
    by (rule epoch_collected(2) [OF assms(3)])
  have 2: "length (y_score s') = length (val_data E)"
    unfolding epoch_collected(2) [OF assms(3)] length_concat_forward [OF assms(2)] c ..
  have p: "y_pred s' = map threshold (y_score s')" by (rule epoch_collected(3) [OF assms(3)])
  have 3: "length (y_pred s') = length (val_data E)" unfolding p using 2 by simp
  have 4: "\<forall>i < length (val_data E). (y_pred s' ! i = 1) = (0.5 < y_score s' ! i)"
    unfolding p using 2 by (simp add: threshold_def)
  have 5: "threshold 0.5 = 0" by (simp add: threshold_def)
  show ?thesis using 1 c sc p 2 3 4 5 by blast
qed

text \<open>
  The theorem at a validation set of three examples in batches of 2, with the scores 0.9,
  0.5 and 0.2: the predictions are 1, 0 and 0.
\<close>

theorem validation_lists_witness:
  "0 < batch_size (example_config 2 1) \<and>
   epoch (scored_collaborators [(9 / 10, 1), (1 / 2, 0), (2 / 10, 0)]) (example_config 2 1) 0
     (initial 0 Map.empty) =
   Inr (projr (epoch (scored_collaborators [(9 / 10, 1), (1 / 2, 0), (2 / 10, 0)])
     (example_config 2 1) 0 (initial 0 Map.empty))) \<and>
   val_dataloader (scored_collaborators [(9 / 10, 1), (1 / 2, 0), (2 / 10, 0)]) (example_config 2 1) =
     [[(9 / 10, 1), (1 / 2, 0)], [(2 / 10, 0)]] \<and>
   y_true (projr (epoch (scored_collaborators [(9 / 10, 1), (1 / 2, 0), (2 / 10, 0)])
     (example_config 2 1) 0 (initial 0 Map.empty))) = [1, 0, 0] \<and>
   y_score (projr (epoch (scored_collaborators [(9 / 10, 1), (1 / 2, 0), (2 / 10, 0)])
     (example_config 2 1) 0 (initial 0 Map.empty))) = [9 / 10, 1 / 2, 2 / 10] \<and>
   y_pred (projr (epoch (scored_collaborators [(9 / 10, 1), (1 / 2, 0), (2 / 10, 0)])
     (example_config 2 1) 0 (initial 0 Map.empty))) = [1, 0, 0]"
  using validation_lists [of "example_config 2 1"
      "scored_collaborators [(9 / 10, 1), (1 / 2, 0), (2 / 10, 0)]" 0 "initial 0 Map.empty"
      "projr (epoch (scored_collaborators [(9 / 10, 1), (1 / 2, 0), (2 / 10, 0)])
        (example_config 2 1) 0 (initial 0 Map.empty))"]
  by (simp add: example_defs scored_defs)

subsection \<open>Nothing is carried over between epochs\<close>


end
